theory Spec2Isabelle
  imports Complex_Main "HOL-Library.AList" "HOL-Library.Sublist" "HOL-Library.Multiset"
begin

section \<open>Text helpers shared by the engines\<close>

text \<open>
  Python \<open>str\<close> values are modelled as \<open>string\<close>. The model covers ASCII text:
  the character classes below are the ASCII part of what Python 3 uses for \<open>str\<close>.
\<close>

definition LF :: char where "LF = CHR 0x0A"
definition CR :: char where "CR = CHR 0x0D"

text \<open>
  The characters at which \<open>str.splitlines\<close> breaks a line, besides the pair CR LF:
  LF, VT, FF, CR, FS, GS, RS.
\<close>

definition is_linebreak :: "char \<Rightarrow> bool" where
  "is_linebreak c \<longleftrightarrow> c \<in> {CHR 0x0A, CHR 0x0B, CHR 0x0C, CHR 0x0D, CHR 0x1C, CHR 0x1D, CHR 0x1E}"

text \<open>
  \<open>str.splitlines()\<close> without \<open>keepends\<close>: \<open>cur\<close> is the line read so far. A final
  line break does not open an empty last line; CR LF counts as one break.
\<close>

fun splitlines_from :: "string \<Rightarrow> string \<Rightarrow> string list" where
  "splitlines_from cur [] = (if cur = [] then [] else [cur])"
| "splitlines_from cur [c] =
     (if is_linebreak c then [cur] else [cur @ [c]])"
| "splitlines_from cur (c # d # cs) =
     (if c = CR \<and> d = LF then cur # splitlines_from [] cs
      else if is_linebreak c then cur # splitlines_from [] (d # cs)
      else splitlines_from (cur @ [c]) (d # cs))"

definition splitlines :: "string \<Rightarrow> string list" where
  "splitlines s = splitlines_from [] s"

text \<open>\<open>str(n)\<close> for a natural number.\<close>

fun show_nat :: "nat \<Rightarrow> string" where
  "show_nat n =
     (if n < 10 then [''0123456789'' ! n]
      else show_nat (n div 10) @ [''0123456789'' ! (n mod 10)])"

section \<open>Diff engine: statistics (utils/diff\_generator.py)\<close>

record diff_stats =
  old_lines :: int
  new_lines :: int
  lines_added :: int
  lines_removed :: int
  chars_added :: int
  chars_removed :: int

text \<open>
  \<open>content.splitlines() if content else []\<close>: \<open>None\<close> and the empty string are both
  falsy.
\<close>

definition content_lines :: "string option \<Rightarrow> string list" where
  "content_lines content =
     (case content of None \<Rightarrow> [] | Some s \<Rightarrow> if s = [] then [] else splitlines s)"

definition content_chars :: "string option \<Rightarrow> int" where
  "content_chars content =
     (case content of None \<Rightarrow> 0 | Some s \<Rightarrow> if s = [] then 0 else int (length s))"

definition calculate_stats :: "string option \<Rightarrow> string option \<Rightarrow> diff_stats" where
  "calculate_stats old_content new_content =
     (let old_ls = content_lines old_content;
          new_ls = content_lines new_content
      in \<lparr> old_lines = int (length old_ls),
           new_lines = int (length new_ls),
           lines_added = max 0 (int (length new_ls) - int (length old_ls)),
           lines_removed = max 0 (int (length old_ls) - int (length new_ls)),
           chars_added = content_chars new_content,
           chars_removed = content_chars old_content \<rparr>)"

text \<open>The spec's line count of a content: the number of its lines, none when it is absent.\<close>

definition line_count :: "string option \<Rightarrow> int" where
  "line_count content = int (length (content_lines content))"

section \<open>Agents and responses (agents/base.py)\<close>

datatype py_error =
    ValueError string
  | FileNotFoundError
  | FileExistsError
  | NotADirectoryError
  | IsADirectoryError
  | SameFileError
  | JSONDecodeError

text \<open>
  \<open>AgentResponse\<close>. The \<open>metadata\<close> dictionary is read only for its \<open>error\<close> entry,
  which is the field \<open>metadata_error\<close>.
\<close>

record agent_response =
  agent_name :: string
  agent_type :: string
  content :: string
  code :: "string option"
  explanation :: "string option"
  metadata_error :: bool
  tokens_used :: "int option"
  latency_ms :: "int option"

type_synonym query_context = "(string \<times> string) list option"

text \<open>
  An awaited call of an agent either raises an \<open>Exception\<close>, of which the callers use
  only \<open>str(e)\<close>, or returns. Scores are Python floats, modelled as reals (no rounding,
  no NaN).
\<close>

datatype 'a outcome = Raises string | Returns 'a

text \<open>
  \<open>BaseAgent\<close>: \<open>query\<close> and \<open>evaluate\<close> are abstract there, so an agent is its name,
  its type and the outcomes of its two calls.
\<close>

record agent =
  name :: string
  agent_type_of :: string
  query :: "string \<Rightarrow> query_context \<Rightarrow> agent_response outcome"
  evaluate :: "string \<Rightarrow> agent_response \<Rightarrow> agent_response list \<Rightarrow> real outcome"

section \<open>Dispatch engine (dispatcher/parallel\_dispatcher.py)\<close>




section \<open>Evaluation engine (evaluator/cross\_evaluator.py)\<close>


text \<open>\<open>str.lower()\<close> on ASCII text.\<close>

definition lower_char :: "char \<Rightarrow> char" where
  "lower_char c =
     (case map_of (zip ''ABCDEFGHIJKLMNOPQRSTUVWXYZ'' ''abcdefghijklmnopqrstuvwxyz'') c of
        Some d \<Rightarrow> d | None \<Rightarrow> c)"

definition lower :: "string \<Rightarrow> string" where
  "lower s = map lower_char s"










section \<open>File system and paths\<close>

text \<open>
  A path is the list of its components below the root, as \<open>pathlib\<close> holds an absolute
  path. Components are taken literally: symbolic links and \<open>..\<close> are outside the model.
\<close>

type_synonym path = "string list"

datatype node = Dir | File string

text \<open>
  The file system maps a path to what is there; the root is always a directory. The model
  has the failures that the directory structure causes, not those of permissions or devices.
\<close>

type_synonym filesystem = "path \<Rightarrow> node option"

definition node_at :: "filesystem \<Rightarrow> path \<Rightarrow> node option" where
  "node_at fs p = (if p = [] then Some Dir else fs p)"

definition path_exists :: "filesystem \<Rightarrow> path \<Rightarrow> bool" where
  "path_exists fs p \<longleftrightarrow> node_at fs p \<noteq> None"

definition is_dir :: "filesystem \<Rightarrow> path \<Rightarrow> bool" where
  "is_dir fs p \<longleftrightarrow> node_at fs p = Some Dir"


definition parent :: "path \<Rightarrow> path" where
  "parent p = butlast p"

text \<open>\<open>str.split(sep)\<close> for a separator of one character.\<close>

fun split_on :: "char \<Rightarrow> string \<Rightarrow> string list" where
  "split_on sep [] = [[]]"
| "split_on sep (c # cs) =
     (if c = sep then [] # split_on sep cs
      else case split_on sep cs of
             w # ws \<Rightarrow> (c # w) # ws
           | [] \<Rightarrow> [[c]])"

text \<open>
  The components of a path string as \<open>pathlib\<close> parses it: empty components and \<open>.\<close>
  are dropped.
\<close>

definition path_parts :: "string \<Rightarrow> string list" where
  "path_parts s = filter (\<lambda>c. c \<noteq> [] \<and> c \<noteq> ''.'') (split_on CHR ''/'' s)"

definition is_absolute :: "string \<Rightarrow> bool" where
  "is_absolute s = (case s of [] \<Rightarrow> False | c # cs \<Rightarrow> c = CHR ''/'')"

text \<open>
  \<open>base / s\<close>: an absolute right operand replaces the base. (A path string that begins
  with exactly two slashes keeps them in \<open>pathlib\<close>; here it is read as beginning with one.)
\<close>

definition join :: "path \<Rightarrow> string \<Rightarrow> path" where
  "join base s = (if is_absolute s then path_parts s else base @ path_parts s)"

text \<open>\<open>str(p)\<close> of an absolute path and of a relative one.\<close>

definition str_of_path :: "path \<Rightarrow> string" where
  "str_of_path p = (if p = [] then ''/'' else concat (map (\<lambda>c. ''/'' @ c) p))"

fun str_of_relative :: "string list \<Rightarrow> string" where
  "str_of_relative [] = ''.''"
| "str_of_relative [c] = c"
| "str_of_relative (c # cs) = c @ ''/'' @ str_of_relative cs"

text \<open>\<open>p.relative_to(base)\<close>: the components of \<open>p\<close> below \<open>base\<close>, or ValueError.\<close>

definition relative_to :: "path \<Rightarrow> path \<Rightarrow> string list option" where
  "relative_to p base = (if take (length base) p = base then Some (drop (length base) p) else None)"

text \<open>
  \<open>Path.mkdir(parents=True, exist_ok=True)\<close>, walking down from the root: \<open>pre\<close> is the
  part already known to be a directory. A regular file on the way is NotADirectoryError, at
  the end FileExistsError.
\<close>

fun mkdir_chain :: "filesystem \<Rightarrow> path \<Rightarrow> string list \<Rightarrow> py_error + filesystem" where
  "mkdir_chain fs pre [] = Inr fs"
| "mkdir_chain fs pre (c # cs) =
     (case fs (pre @ [c]) of
        Some (File s) \<Rightarrow> Inl (if cs = [] then FileExistsError else NotADirectoryError)
      | Some Dir \<Rightarrow> mkdir_chain fs (pre @ [c]) cs
      | None \<Rightarrow> mkdir_chain (fs(pre @ [c] \<mapsto> Dir)) (pre @ [c]) cs)"

definition mkdir_parents :: "filesystem \<Rightarrow> path \<Rightarrow> py_error + filesystem" where
  "mkdir_parents fs p = mkdir_chain fs [] p"

text \<open>\<open>Path.mkdir(exist_ok=True)\<close>, without \<open>parents\<close>.\<close>

definition mkdir_exist_ok :: "filesystem \<Rightarrow> path \<Rightarrow> py_error + filesystem" where
  "mkdir_exist_ok fs p =
     (case node_at fs p of
        Some Dir \<Rightarrow> Inr fs
      | Some (File s) \<Rightarrow> Inl FileExistsError
      | None \<Rightarrow>
          (case node_at fs (parent p) of
             None \<Rightarrow> Inl FileNotFoundError
           | Some (File s) \<Rightarrow> Inl NotADirectoryError
           | Some Dir \<Rightarrow> Inr (fs(p \<mapsto> Dir))))"

text \<open>Opening a file for writing and writing \<open>s\<close>: \<open>Path.write_text\<close>.\<close>

definition write_text :: "filesystem \<Rightarrow> path \<Rightarrow> string \<Rightarrow> py_error + filesystem" where
  "write_text fs p s =
     (if p = [] then Inl IsADirectoryError
      else case node_at fs (parent p) of
             None \<Rightarrow> Inl FileNotFoundError
           | Some (File t) \<Rightarrow> Inl NotADirectoryError
           | Some Dir \<Rightarrow>
               (case fs p of
                  Some Dir \<Rightarrow> Inl IsADirectoryError
                | _ \<Rightarrow> Inr (fs(p \<mapsto> File s))))"

definition read_text :: "filesystem \<Rightarrow> path \<Rightarrow> py_error + string" where
  "read_text fs p =
     (case node_at fs p of
        None \<Rightarrow> Inl FileNotFoundError
      | Some Dir \<Rightarrow> Inl IsADirectoryError
      | Some (File s) \<Rightarrow> Inr s)"

definition unlink :: "filesystem \<Rightarrow> path \<Rightarrow> py_error + filesystem" where
  "unlink fs p =
     (case node_at fs p of
        None \<Rightarrow> Inl FileNotFoundError
      | Some Dir \<Rightarrow> Inl IsADirectoryError
      | Some (File s) \<Rightarrow> Inr (fs(p := None)))"

definition basename :: "path \<Rightarrow> string" where
  "basename p = (if p = [] then [] else last p)"

text \<open>
  \<open>shutil.copy2(src, dst)\<close>: a destination that is a directory receives the file under
  the source's name; copying a file onto itself is SameFileError; then the source is read
  and the destination written. File metadata is not modelled.
\<close>

definition copy2 :: "filesystem \<Rightarrow> path \<Rightarrow> path \<Rightarrow> py_error + filesystem" where
  "copy2 fs src dst =
     (let target = (if is_dir fs dst then dst @ [basename src] else dst)
      in if src = target \<and> path_exists fs src then Inl SameFileError
         else case read_text fs src of
                Inl e \<Rightarrow> Inl e
              | Inr s \<Rightarrow> write_text fs target s)"

section \<open>Diff engine: applying changes (utils/diff\_generator.py)\<close>

datatype operation_type = Create | Modify | Delete | Unknown

record file_diff =
  operation :: operation_type
  file_path :: string
  old_content :: "string option"
  new_content :: "string option"
  unified_diff :: string
  stats :: diff_stats

record apply_results =
  success :: "string list"
  failed :: "(string \<times> py_error) list"
  skipped :: "string list"

text \<open>\<open>diff.new_content or ""\<close>\<close>

definition content_or_empty :: "string option \<Rightarrow> string" where
  "content_or_empty c = (case c of None \<Rightarrow> [] | Some s \<Rightarrow> s)"

text \<open>
  The body of the loop of \<open>apply_changes\<close>, for one diff: the state is the \<open>results\<close>
  dictionary and the file system. The body is one \<open>try\<close>: whatever is raised goes to
  \<open>failed\<close>.
\<close>

definition apply_diff ::
  "path \<Rightarrow> bool \<Rightarrow> file_diff \<Rightarrow> apply_results \<times> filesystem \<Rightarrow> apply_results \<times> filesystem" where
  "apply_diff working_dir dry_run d st =
     (let results = fst st; fs = snd st;
          target = join working_dir (file_path d)
      in if dry_run
         then (results\<lparr>success := success results @ [file_path d]\<rparr>, fs)
         else case mkdir_parents fs (parent target) of
           Inl e \<Rightarrow> (results\<lparr>failed := failed results @ [(file_path d, e)]\<rparr>, fs)
         | Inr fs1 \<Rightarrow>
             if operation d = Delete
             then if path_exists fs1 target
                  then case unlink fs1 target of
                         Inl e \<Rightarrow> (results\<lparr>failed := failed results @ [(file_path d, e)]\<rparr>, fs1)
                       | Inr fs2 \<Rightarrow> (results\<lparr>success := success results @ [file_path d]\<rparr>, fs2)
                  else (results\<lparr>skipped := skipped results @ [file_path d]\<rparr>, fs1)
             else case write_text fs1 target (content_or_empty (new_content d)) of
                    Inl e \<Rightarrow> (results\<lparr>failed := failed results @ [(file_path d, e)]\<rparr>, fs1)
                  | Inr fs2 \<Rightarrow> (results\<lparr>success := success results @ [file_path d]\<rparr>, fs2))"

text \<open>\<open>for diff in diffs\<close>: the loop goes on after every diff, failed or not.\<close>

fun apply_loop ::
  "path \<Rightarrow> bool \<Rightarrow> file_diff list \<Rightarrow> apply_results \<times> filesystem \<Rightarrow> apply_results \<times> filesystem" where
  "apply_loop working_dir dry_run [] st = st"
| "apply_loop working_dir dry_run (d # rest) st =
     apply_loop working_dir dry_run rest (apply_diff working_dir dry_run d st)"

definition apply_changes ::
  "path \<Rightarrow> filesystem \<Rightarrow> file_diff list \<Rightarrow> bool \<Rightarrow> apply_results \<times> filesystem" where
  "apply_changes working_dir fs diff_list dry_run =
     apply_loop working_dir dry_run diff_list (\<lparr>success = [], failed = [], skipped = []\<rparr>, fs)"

section \<open>Backup and rollback engine (utils/backup\_manager.py)\<close>

record file_info =
  original_path :: string
  backup_path :: string
  size_bytes :: nat

text \<open>The manifest dictionary; its key \<open>backup_path\<close> is the field \<open>snapshot_path\<close>.\<close>

record manifest =
  timestamp :: string
  snapshot_path :: string
  files :: "file_info list"

text \<open>
  \<open>json.dumps\<close> and \<open>json.loads\<close> belong to the standard library; the engine takes them
  as a parameter. \<open>json_loads\<close> gives \<open>None\<close> for a text that is not a manifest.
\<close>

record json_codec =
  json_dumps :: "manifest \<Rightarrow> string"
  json_loads :: "string \<Rightarrow> manifest option"

record backup_manager =
  working_dir :: path
  backup_dir :: path

text \<open>\<open>BackupManager.__init__\<close>: the backup directory is made when the manager is.\<close>

definition backup_manager_init ::
  "filesystem \<Rightarrow> path \<Rightarrow> path option \<Rightarrow> py_error + backup_manager \<times> filesystem" where
  "backup_manager_init fs wd bdir =
     (let bd = (case bdir of None \<Rightarrow> wd @ [''.multi-agent-coder-backups''] | Some b \<Rightarrow> b)
      in case mkdir_exist_ok fs bd of
           Inl e \<Rightarrow> Inl e
         | Inr fs1 \<Rightarrow> Inr (\<lparr>working_dir = wd, backup_dir = bd\<rparr>, fs1))"

text \<open>
  The body of the loop of \<open>create_backup\<close>, for one path: \<open>snapshot\<close> is the snapshot
  directory, the state is \<open>manifest["files"]\<close> and the file system. A path that does not
  exist is passed over; whatever the copy raises is printed as a warning and the loop goes
  on, keeping what was done before the exception. After a copy the source is a regular
  file, so \<open>stat().st_size\<close> is the length of its content.
\<close>

definition backup_file ::
  "backup_manager \<Rightarrow> path \<Rightarrow> string \<Rightarrow> file_info list \<times> filesystem \<Rightarrow> file_info list \<times> filesystem" where
  "backup_file bm snapshot path_str st =
     (let infos = fst st; fs = snd st;
          full_path = join (working_dir bm) path_str
      in if \<not> path_exists fs full_path then st
         else let backup_file_path = join snapshot path_str
              in case mkdir_parents fs (parent backup_file_path) of
                   Inl e \<Rightarrow> (infos, fs)
                 | Inr fs1 \<Rightarrow>
                    (case copy2 fs1 full_path backup_file_path of
                       Inl e \<Rightarrow> (infos, fs1)
                     | Inr fs2 \<Rightarrow>
                        (case relative_to backup_file_path snapshot of
                           None \<Rightarrow> (infos, fs2)
                         | Some rel \<Rightarrow>
                            (case node_at fs2 full_path of
                               Some (File s) \<Rightarrow>
                                 (infos @ [\<lparr>original_path = path_str,
                                            backup_path = str_of_relative rel,
                                            size_bytes = length s\<rparr>], fs2)
                             | _ \<Rightarrow> (infos, fs2)))))"

fun backup_files ::
  "backup_manager \<Rightarrow> path \<Rightarrow> string list \<Rightarrow> file_info list \<times> filesystem \<Rightarrow> file_info list \<times> filesystem" where
  "backup_files bm snapshot [] st = st"
| "backup_files bm snapshot (p # rest) st = backup_files bm snapshot rest (backup_file bm snapshot p st)"

text \<open>
  \<open>create_backup\<close>: \<open>now\<close> is \<open>datetime.now().strftime("%Y%m%d_%H%M%S")\<close>. The
  result is \<open>str(backup_path)\<close>, the whole path of the snapshot directory.
\<close>

definition create_backup ::
  "json_codec \<Rightarrow> backup_manager \<Rightarrow> string \<Rightarrow> filesystem \<Rightarrow> string list
    \<Rightarrow> py_error + string \<times> filesystem" where
  "create_backup codec bm now fs file_paths =
     (let backup_name = ''backup_'' @ now;
          snapshot = join (backup_dir bm) backup_name
      in case mkdir_exist_ok fs snapshot of
           Inl e \<Rightarrow> Inl e
         | Inr fs0 \<Rightarrow>
            (let st = backup_files bm snapshot file_paths ([], fs0);
                 m = \<lparr>timestamp = now, snapshot_path = str_of_path snapshot, files = fst st\<rparr>
             in case write_text (snd st) (join snapshot ''manifest.json'') (json_dumps codec m) of
                  Inl e \<Rightarrow> Inl e
                | Inr fs2 \<Rightarrow> Inr (str_of_path snapshot, fs2)))"

record restore_results =
  restored :: "string list"
  restore_failed :: "(string \<times> py_error) list"

text \<open>
  The start of \<open>restore_backup\<close>: the snapshot directory and its manifest, or the error
  raised.
\<close>

definition load_manifest ::
  "json_codec \<Rightarrow> backup_manager \<Rightarrow> filesystem \<Rightarrow> string \<Rightarrow> py_error + path \<times> manifest" where
  "load_manifest codec bm fs backup_name =
     (let snapshot = join (backup_dir bm) backup_name
      in if \<not> path_exists fs snapshot
         then Inl (ValueError (''Backup '' @ [CHR 0x27] @ backup_name @ [CHR 0x27] @ '' not found''))
         else let manifest_path = join snapshot ''manifest.json''
              in if \<not> path_exists fs manifest_path
                 then Inl (ValueError ''Backup manifest not found'')
                 else case read_text fs manifest_path of
                        Inl e \<Rightarrow> Inl e
                      | Inr txt \<Rightarrow>
                         (case json_loads codec txt of
                            None \<Rightarrow> Inl JSONDecodeError
                          | Some m \<Rightarrow> Inr (snapshot, m)))"

text \<open>
  \<open>if file_paths and original_path not in file_paths: continue\<close>: \<open>None\<close> and the
  empty list are both falsy.
\<close>

definition passed_over :: "string list option \<Rightarrow> string \<Rightarrow> bool" where
  "passed_over file_paths orig =
     (case file_paths of None \<Rightarrow> False | Some ps \<Rightarrow> ps \<noteq> [] \<and> orig \<notin> set ps)"

text \<open>The body of the loop of \<open>restore_backup\<close>, for one entry of the manifest.\<close>

definition restore_file ::
  "backup_manager \<Rightarrow> path \<Rightarrow> string list option \<Rightarrow> file_info
    \<Rightarrow> restore_results \<times> filesystem \<Rightarrow> restore_results \<times> filesystem" where
  "restore_file bm snapshot file_paths info st =
     (let results = fst st; fs = snd st
      in if passed_over file_paths (original_path info) then st
         else let backup_file_path = join snapshot (backup_path info);
                  target_file_path = join (working_dir bm) (original_path info)
              in case mkdir_parents fs (parent target_file_path) of
                   Inl e \<Rightarrow> (results\<lparr>restore_failed :=
                                restore_failed results @ [(original_path info, e)]\<rparr>, fs)
                 | Inr fs1 \<Rightarrow>
                    (case copy2 fs1 backup_file_path target_file_path of
                       Inl e \<Rightarrow> (results\<lparr>restore_failed :=
                                    restore_failed results @ [(original_path info, e)]\<rparr>, fs1)
                     | Inr fs2 \<Rightarrow> (results\<lparr>restored :=
                                    restored results @ [original_path info]\<rparr>, fs2)))"

fun restore_files ::
  "backup_manager \<Rightarrow> path \<Rightarrow> string list option \<Rightarrow> file_info list
    \<Rightarrow> restore_results \<times> filesystem \<Rightarrow> restore_results \<times> filesystem" where
  "restore_files bm snapshot file_paths [] st = st"
| "restore_files bm snapshot file_paths (info # rest) st =
     restore_files bm snapshot file_paths rest (restore_file bm snapshot file_paths info st)"

definition restore_backup ::
  "json_codec \<Rightarrow> backup_manager \<Rightarrow> filesystem \<Rightarrow> string \<Rightarrow> string list option
    \<Rightarrow> py_error + restore_results \<times> filesystem" where
  "restore_backup codec bm fs backup_name file_paths =
     (case load_manifest codec bm fs backup_name of
        Inl e \<Rightarrow> Inl e
      | Inr (snapshot, m) \<Rightarrow>
          Inr (restore_files bm snapshot file_paths (files m)
                 (\<lparr>restored = [], restore_failed = []\<rparr>, fs)))"

section \<open>Regular expressions as \<open>re\<close> matches them\<close>

text \<open>
  The patterns of the extraction engine use character classes, sequence, alternatives,
  greedy and lazy repetition, optional parts, capturing groups and the line anchor. A
  pattern is matched by backtracking, as \<open>re\<close> does: \<open>matches\<close> lists every way to
  match at a position, the way that \<open>re\<close> finds first coming first. No pattern here has a
  group inside a group or inside a repetition, so the captured texts are kept in the order
  in which their groups end.
\<close>

datatype regex =
    Chars "char \<Rightarrow> bool"
  | Seq regex regex
  | Alt regex regex
  | Star regex
  | Lazy regex
  | Opt regex
  | Group regex
  | Bol

text \<open>
  A position in the text: the character before it (needed by \<open>^\<close>), the text from it on,
  and the groups captured so far.
\<close>

type_synonym position = "char option \<times> string \<times> string list"

definition remaining :: "position \<Rightarrow> string" where
  "remaining pos = fst (snd pos)"

definition advances :: "position \<Rightarrow> position \<Rightarrow> bool" where
  "advances pos pos' \<longleftrightarrow> length (remaining pos') < length (remaining pos)"

text \<open>
  Repetition: greedy tries one more round first, lazy tries to stop first. A round that
  consumes nothing is not repeated, so the length of the remaining text bounds the rounds.
\<close>

primrec star_greedy :: "nat \<Rightarrow> (position \<Rightarrow> position list) \<Rightarrow> position \<Rightarrow> position list" where
  "star_greedy 0 f pos = [pos]"
| "star_greedy (Suc n) f pos =
     concat (map (star_greedy n f) (filter (advances pos) (f pos))) @ [pos]"

primrec star_lazy :: "nat \<Rightarrow> (position \<Rightarrow> position list) \<Rightarrow> position \<Rightarrow> position list" where
  "star_lazy 0 f pos = [pos]"
| "star_lazy (Suc n) f pos =
     pos # concat (map (star_lazy n f) (filter (advances pos) (f pos)))"

definition step_char :: "(char \<Rightarrow> bool) \<Rightarrow> position \<Rightarrow> position list" where
  "step_char p pos =
     (case remaining pos of
        [] \<Rightarrow> []
      | c # cs \<Rightarrow> if p c then [(Some c, cs, snd (snd pos))] else [])"

definition capture :: "position \<Rightarrow> position \<Rightarrow> position" where
  "capture pos pos' =
     (fst pos', remaining pos',
      snd (snd pos') @ [take (length (remaining pos) - length (remaining pos')) (remaining pos)])"

definition at_line_start :: "position \<Rightarrow> bool" where
  "at_line_start pos \<longleftrightarrow> fst pos = None \<or> fst pos = Some LF"

primrec matches :: "regex \<Rightarrow> position \<Rightarrow> position list" where
  "matches (Chars p) = step_char p"
| "matches (Seq a b) = (\<lambda>pos. concat (map (matches b) (matches a pos)))"
| "matches (Alt a b) = (\<lambda>pos. matches a pos @ matches b pos)"
| "matches (Star a) = (\<lambda>pos. star_greedy (length (remaining pos)) (matches a) pos)"
| "matches (Lazy a) = (\<lambda>pos. star_lazy (length (remaining pos)) (matches a) pos)"
| "matches (Opt a) = (\<lambda>pos. matches a pos @ [pos])"
| "matches (Group a) = (\<lambda>pos. map (capture pos) (matches a pos))"
| "matches Bol = (\<lambda>pos. if at_line_start pos then [pos] else [])"

text \<open>The match that \<open>re\<close> reports at a position: the text after it and its groups.\<close>

definition match_at :: "regex \<Rightarrow> char option \<Rightarrow> string \<Rightarrow> (string \<times> string list) option" where
  "match_at r prev s =
     (case matches r (prev, s, []) of
        [] \<Rightarrow> None
      | pos # others \<Rightarrow> Some (remaining pos, snd (snd pos)))"

text \<open>
  \<open>re.finditer\<close>: the matches from left to right, none overlapping another; \<open>skip\<close>
  counts the characters of the last match that are still to be passed. The result is the
  list of the groups of each match.
\<close>

fun find_matches :: "regex \<Rightarrow> char option \<Rightarrow> string \<Rightarrow> nat \<Rightarrow> string list list" where
  "find_matches r prev [] skip =
     (if skip = 0
      then (case match_at r prev [] of None \<Rightarrow> [] | Some (rest, groups) \<Rightarrow> [groups])
      else [])"
| "find_matches r prev (c # cs) skip =
     (if skip = 0
      then (case match_at r prev (c # cs) of
              None \<Rightarrow> find_matches r (Some c) cs 0
            | Some (rest, groups) \<Rightarrow>
                groups # find_matches r (Some c) cs (length (c # cs) - length rest - 1))
      else find_matches r (Some c) cs (skip - 1))"

definition finditer :: "regex \<Rightarrow> string \<Rightarrow> string list list" where
  "finditer r s = find_matches r None s 0"

text \<open>\<open>re.findall\<close> for a pattern with one group: the text of the group of each match.\<close>

definition findall :: "regex \<Rightarrow> string \<Rightarrow> string list" where
  "findall r s = map (\<lambda>groups. case groups of [] \<Rightarrow> [] | g # gs \<Rightarrow> g) (finditer r s)"

text \<open>\<open>re.search\<close>: the groups of the first match.\<close>

definition search :: "regex \<Rightarrow> string \<Rightarrow> string list option" where
  "search r s = (case finditer r s of [] \<Rightarrow> None | groups # others \<Rightarrow> Some groups)"

subsection \<open>Character classes and literals\<close>

definition is_space :: "char \<Rightarrow> bool" where
  "is_space c \<longleftrightarrow>
     c \<in> set [CHR 0x09, CHR 0x0A, CHR 0x0B, CHR 0x0C, CHR 0x0D,
               CHR 0x1C, CHR 0x1D, CHR 0x1E, CHR 0x1F, CHR 0x20]"

definition is_letter :: "char \<Rightarrow> bool" where
  "is_letter c \<longleftrightarrow> c \<in> set ''abcdefghijklmnopqrstuvwxyzABCDEFGHIJKLMNOPQRSTUVWXYZ''"

definition is_word :: "char \<Rightarrow> bool" where
  "is_word c \<longleftrightarrow> is_letter c \<or> c \<in> set ''0123456789_''"

definition is_quote :: "char \<Rightarrow> bool" where
  "is_quote c \<longleftrightarrow> c \<in> set [CHR 0x60, CHR 0x22, CHR 0x27]"

definition Plus :: "regex \<Rightarrow> regex" where
  "Plus r = Seq r (Star r)"

text \<open>A literal text, and a literal text under \<open>re.IGNORECASE\<close>.\<close>

fun lit :: "string \<Rightarrow> regex" where
  "lit [] = Opt (Chars (\<lambda>c. False))"
| "lit [c] = Chars (\<lambda>x. x = c)"
| "lit (c # cs) = Seq (Chars (\<lambda>x. x = c)) (lit cs)"

fun lit_ci :: "string \<Rightarrow> regex" where
  "lit_ci [] = Opt (Chars (\<lambda>c. False))"
| "lit_ci [c] = Chars (\<lambda>x. lower_char x = lower_char c)"
| "lit_ci (c # cs) = Seq (Chars (\<lambda>x. lower_char x = lower_char c)) (lit_ci cs)"

fun alternatives :: "regex list \<Rightarrow> regex" where
  "alternatives [] = Chars (\<lambda>c. False)"
| "alternatives [r] = r"
| "alternatives (r # rs) = Alt r (alternatives rs)"

text \<open>\<open>\.[a-z]+\<close> under \<open>re.IGNORECASE\<close>\<close>

definition dot_extension :: regex where
  "dot_extension = Seq (Chars (\<lambda>c. c = CHR ''.'')) (Plus (Chars is_letter))"

section \<open>Extraction engine (utils/code\_parser.py)\<close>

record file_operation =
  op_type :: operation_type
  op_file_path :: string
  op_content :: "string option"
  line_start :: "int option"
  line_end :: "int option"
  language :: "string option"

text \<open>
  \<open>FILE_PATTERNS\<close>, matched with \<open>re.MULTILINE | re.IGNORECASE\<close>. The two markers of the
  first pattern that are not ASCII stand as their UTF-8 bytes.
\<close>

definition file_marker_pattern :: regex where
  "file_marker_pattern =
     Seq (alternatives [lit_ci ''File:'',
                        lit [CHR 0xF0, CHR 0x9F, CHR 0x93, CHR 0x84],
                        lit [CHR 0xE2, CHR 0x86, CHR 0x92]])
       (Seq (Star (Chars is_space))
         (Group (Seq (Plus (Chars (\<lambda>c. \<not> is_space c \<and> c \<noteq> CHR '':''))) dot_extension)))"

definition operation_phrase_pattern :: regex where
  "operation_phrase_pattern =
     Seq (alternatives [lit_ci ''create'', lit_ci ''modify'', lit_ci ''delete'', lit_ci ''update''])
       (Seq (Plus (Chars is_space))
         (Seq (Opt (Seq (lit_ci ''file'') (Plus (Chars is_space))))
           (Seq (Opt (Chars is_quote))
             (Seq (Group (Seq (Plus (Chars (\<lambda>c. \<not> is_space c \<and> \<not> is_quote c))) dot_extension))
               (Opt (Chars is_quote))))))"

definition windows_path_pattern :: regex where
  "windows_path_pattern =
     Seq (Opt (Seq (lit_ci ''in'') (Plus (Chars is_space))))
       (Group (Seq (Chars is_letter)
                (Seq (Chars (\<lambda>c. c = CHR '':''))
                  (Seq (Chars (\<lambda>c. c = CHR ''/'' \<or> c = CHR 0x5C))
                    (Seq (Plus (Chars (\<lambda>c. \<not> is_space c))) dot_extension)))))"

definition unix_path_pattern :: regex where
  "unix_path_pattern =
     Group (Seq (Chars (\<lambda>c. c = CHR ''~'' \<or> c = CHR ''/''))
             (Seq (Plus (Chars (\<lambda>c. \<not> is_space c))) dot_extension))"

definition bare_filename_pattern :: regex where
  "bare_filename_pattern =
     Seq (Alt Bol (Chars (\<lambda>c. c = LF)))
       (Seq (Star (Chars is_space))
         (Seq (Opt (Chars (\<lambda>c. c = CHR ''#'')))
           (Seq (Star (Chars is_space))
             (Group (Seq (Chars (\<lambda>c. is_letter c \<or> c = CHR ''_''))
                      (Seq (Star (Chars is_word)) dot_extension))))))"

definition FILE_PATTERNS :: "regex list" where
  "FILE_PATTERNS =
     [file_marker_pattern, operation_phrase_pattern, windows_path_pattern,
      unix_path_pattern, bare_filename_pattern]"

text \<open>The pattern of a fenced block, matched with \<open>re.DOTALL\<close>.\<close>

definition code_block_pattern :: regex where
  "code_block_pattern =
     Seq (lit ''```'')
       (Seq (Group (Star (Chars is_word)))
         (Seq (Chars (\<lambda>c. c = LF))
           (Seq (Group (Lazy (Chars (\<lambda>c. True)))) (lit ''```''))))"

text \<open>\<open>^class\s+(\w+)\<close> with \<open>re.MULTILINE\<close>, and \<open>class\s+(\w+)\<close>.\<close>

definition class_pattern :: regex where
  "class_pattern = Seq (lit ''class'') (Seq (Plus (Chars is_space)) (Group (Plus (Chars is_word))))"

definition class_line_pattern :: regex where
  "class_line_pattern = Seq Bol class_pattern"

subsection \<open>String helpers\<close>

definition strip :: "string \<Rightarrow> string" where
  "strip s = rev (dropWhile is_space (rev (dropWhile is_space s)))"

fun starts_with :: "string \<Rightarrow> string \<Rightarrow> bool" where
  "starts_with s [] = True"
| "starts_with [] (p # ps) = False"
| "starts_with (c # cs) (p # ps) = (c = p \<and> starts_with cs ps)"

text \<open>The text before the first occurrence of \<open>sub\<close>, that is \<open>s.split(sub)[0]\<close>.\<close>

fun before_first :: "string \<Rightarrow> string \<Rightarrow> string option" where
  "before_first [] sub = (if sub = [] then Some [] else None)"
| "before_first (c # cs) sub =
     (if starts_with (c # cs) sub then Some []
      else map_option ((#) c) (before_first cs sub))"

text \<open>\<open>sub in s\<close>\<close>

definition contains :: "string \<Rightarrow> string \<Rightarrow> bool" where
  "contains s sub \<longleftrightarrow> before_first s sub \<noteq> None"

text \<open>\<open>"\n".join(lines)\<close>\<close>

fun join_lines :: "string list \<Rightarrow> string" where
  "join_lines [] = []"
| "join_lines [l] = l"
| "join_lines (l # ls) = l @ [LF] @ join_lines ls"

subsection \<open>The parser\<close>

text \<open>
  The fallback of \<open>_extract_code_blocks\<close>: the loop over the lines, with
  \<open>current_block\<close> and \<open>in_code_block\<close>.
\<close>

fun indented_blocks :: "string list \<Rightarrow> string list \<Rightarrow> bool \<Rightarrow> (string \<times> string) list" where
  "indented_blocks [] current_block in_code_block =
     (if current_block \<noteq> [] then [(''text'', join_lines current_block)] else [])"
| "indented_blocks (line # rest) current_block in_code_block =
     (if starts_with line ''    '' \<or> starts_with line [CHR 0x09]
      then indented_blocks rest (current_block @ [line]) True
      else if in_code_block
      then (if strip line = []
            then (''text'', join_lines (current_block @ [line])) # indented_blocks rest [] False
            else indented_blocks rest (current_block @ [line]) True)
      else indented_blocks rest current_block in_code_block)"

definition fenced_block :: "string list \<Rightarrow> string \<times> string" where
  "fenced_block groups =
     (case groups of
        [lang, body] \<Rightarrow> (if lang = [] then ''text'' else lang, strip body)
      | _ \<Rightarrow> (''text'', []))"

definition extract_code_blocks :: "string \<Rightarrow> (string \<times> string) list" where
  "extract_code_blocks text =
     (let blocks = map fenced_block (finditer code_block_pattern text)
      in if blocks = [] then indented_blocks (split_on LF text) [] False else blocks)"

text \<open>
  \<open>_extract_file_path\<close>: the loop over the patterns returns at the first pattern that
  matches anywhere, with the last of that pattern's matches.
\<close>

fun extract_file_path_from :: "regex list \<Rightarrow> string \<Rightarrow> string option" where
  "extract_file_path_from [] text = None"
| "extract_file_path_from (pattern # rest) text =
     (let found = findall pattern text
      in if found \<noteq> [] then Some (strip (last found))
         else extract_file_path_from rest text)"

definition extract_file_path :: "string \<Rightarrow> string option" where
  "extract_file_path text = extract_file_path_from FILE_PATTERNS text"

definition infer_file_path_from_code :: "string \<Rightarrow> string \<Rightarrow> string option" where
  "infer_file_path_from_code code_text lang =
     (if lang = ''python''
      then (case search class_line_pattern code_text of
              Some [class_name] \<Rightarrow> Some (lower class_name @ ''.py'')
            | _ \<Rightarrow> None)
      else if lang = ''javascript'' \<or> lang = ''typescript''
      then (case search class_pattern code_text of
              Some [class_name] \<Rightarrow> Some (lower class_name @ ''.js'')
            | _ \<Rightarrow> None)
      else None)"

definition extensions :: "(string \<times> string) list" where
  "extensions =
     [(''python'', ''.py''), (''javascript'', ''.js''), (''typescript'', ''.ts''),
      (''java'', ''.java''), (''go'', ''.go''), (''rust'', ''.rs''), (''c'', ''.c''),
      (''cpp'', ''.cpp''), (''html'', ''.html''), (''css'', ''.css''), (''json'', ''.json''),
      (''yaml'', ''.yaml''), (''yml'', ''.yml'')]"

definition generate_default_filename :: "string \<Rightarrow> string \<Rightarrow> nat \<Rightarrow> string" where
  "generate_default_filename code_text lang index =
     (let ext = (case map_of extensions lang of Some e \<Rightarrow> e | None \<Rightarrow> ''.txt'');
          low = lower code_text
      in if contains low ''binary_search'' \<or> contains low ''binary search''
         then ''binary_search'' @ ext
         else if contains low ''main'' then ''main'' @ ext
         else if contains low ''utils'' then ''utils'' @ ext
         else if contains low ''test'' then ''test'' @ ext
         else ''code_'' @ show_nat (index + 1) @ ext)"

definition detect_operation_type :: "string \<Rightarrow> string \<Rightarrow> string \<Rightarrow> operation_type" where
  "detect_operation_type text_before path_str code_text =
     (let text_lower = lower text_before
      in if list_ex (contains text_lower) [''create'', ''new file'', ''add file'', ''write to'']
         then Create
         else if list_ex (contains text_lower)
                   [''modify'', ''update'', ''change'', ''edit'', ''refactor'']
         then Modify
         else if list_ex (contains text_lower) [''delete'', ''remove'']
         then Delete
         else if list_ex (contains text_lower) [''implement'', ''create'', ''add'', ''write'']
         then Create
         else Create)"

text \<open>\<open>if not file_path\<close>: \<open>None\<close> and the empty string are both falsy.\<close>

definition nonempty :: "string option \<Rightarrow> string option" where
  "nonempty p = (case p of None \<Rightarrow> None | Some s \<Rightarrow> if s = [] then None else Some s)"

text \<open>
  \<open>_detect_operation_for_block\<close>. The text before the block is
  \<open>full_response.split(code_block)[0]\<close>, which raises ValueError for an empty block (an
  empty separator).
\<close>

definition detect_operation_for_block ::
  "string \<Rightarrow> string \<Rightarrow> nat \<Rightarrow> string \<Rightarrow> py_error + file_operation" where
  "detect_operation_for_block full_response code_block block_index lang =
     (if code_block = [] then Inl (ValueError ''empty separator'')
      else let text_before = (case before_first full_response code_block of
                                Some t \<Rightarrow> t | None \<Rightarrow> []);
               found = nonempty (extract_file_path text_before);
               inferred = (case found of
                             Some p \<Rightarrow> Some p
                           | None \<Rightarrow> nonempty (infer_file_path_from_code code_block lang));
               path_str = (case inferred of
                             Some p \<Rightarrow> p
                           | None \<Rightarrow> generate_default_filename code_block lang block_index)
           in Inr \<lparr> op_type = detect_operation_type text_before path_str code_block,
                    op_file_path = path_str,
                    op_content = Some code_block,
                    line_start = None,
                    line_end = None,
                    language = (if lang \<noteq> ''text'' then Some lang else None) \<rparr>)"

fun parse_blocks :: "string \<Rightarrow> nat \<Rightarrow> (string \<times> string) list \<Rightarrow> py_error + file_operation list" where
  "parse_blocks full_response i [] = Inr []"
| "parse_blocks full_response i ((lang, code_block) # rest) =
     (case detect_operation_for_block full_response code_block i lang of
        Inl e \<Rightarrow> Inl e
      | Inr op \<Rightarrow>
         (case parse_blocks full_response (Suc i) rest of
            Inl e \<Rightarrow> Inl e
          | Inr ops \<Rightarrow> Inr (op # ops)))"

definition parse_response :: "string \<Rightarrow> py_error + file_operation list" where
  "parse_response response_text =
     parse_blocks response_text 0 (extract_code_blocks response_text)"

section \<open>Example agents and responses\<close>




definition example_diff :: "operation_type \<Rightarrow> string \<Rightarrow> string option \<Rightarrow> file_diff" where
  "example_diff op p c =
     \<lparr> operation = op, file_path = p, old_content = None, new_content = c,
       unified_diff = [], stats = calculate_stats None c \<rparr>"

definition example_tree :: filesystem where
  "example_tree = [[''w''] \<mapsto> Dir, [''w'', ''blocker''] \<mapsto> File ''x'']"

text \<open>
  The text that \<open>json.dumps(manifest, indent=2)\<close> writes, for manifests whose strings need
  no escape other than those of the quote, the backslash and the line feed.
\<close>

definition json_escape :: "char \<Rightarrow> string" where
  "json_escape c =
     (if c = CHR 0x22 then [CHR 0x5C, CHR 0x22]
      else if c = CHR 0x5C then [CHR 0x5C, CHR 0x5C]
      else if c = CHR 0x0A then [CHR 0x5C, CHR ''n'']
      else [c])"

definition json_string :: "string \<Rightarrow> string" where
  "json_string s = [CHR 0x22] @ concat (map json_escape s) @ [CHR 0x22]"

definition json_of_file_info :: "file_info \<Rightarrow> string" where
  "json_of_file_info info =
     ''    {'' @ [LF]
     @ ''      '' @ json_string ''original_path'' @ '': '' @ json_string (original_path info) @ '','' @ [LF]
     @ ''      '' @ json_string ''backup_path'' @ '': '' @ json_string (backup_path info) @ '','' @ [LF]
     @ ''      '' @ json_string ''size'' @ '': '' @ show_nat (size_bytes info) @ [LF]
     @ ''    }''"

fun json_of_file_infos :: "file_info list \<Rightarrow> string" where
  "json_of_file_infos [] = []"
| "json_of_file_infos [info] = json_of_file_info info @ [LF]"
| "json_of_file_infos (info # rest) = json_of_file_info info @ '','' @ [LF] @ json_of_file_infos rest"

definition json_of_manifest :: "manifest \<Rightarrow> string" where
  "json_of_manifest m =
     ''{'' @ [LF]
     @ ''  '' @ json_string ''timestamp'' @ '': '' @ json_string (timestamp m) @ '','' @ [LF]
     @ ''  '' @ json_string ''backup_path'' @ '': '' @ json_string (snapshot_path m) @ '','' @ [LF]
     @ ''  '' @ json_string ''files'' @ '': ''
     @ (if files m = [] then ''[]'' else ''['' @ [LF] @ json_of_file_infos (files m) @ ''  ]'') @ [LF]
     @ ''}''"

text \<open>
  The codec of the examples writes that text and reads back the manifests of the examples.
\<close>

definition example_snapshot :: string where
  "example_snapshot = ''/w/.multi-agent-coder-backups/backup_20250101_120000''"

definition example_manifests :: "manifest list" where
  "example_manifests =
     [\<lparr>timestamp = ''20250101_120000'', snapshot_path = example_snapshot,
        files = [\<lparr>original_path = ''manifest.json'', backup_path = ''manifest.json'',
                  size_bytes = 16\<rparr>]\<rparr>,
      \<lparr>timestamp = ''20250101_120000'', snapshot_path = example_snapshot,
        files = [\<lparr>original_path = ''app.py'', backup_path = ''app.py'', size_bytes = 8\<rparr>,
                 \<lparr>original_path = ''lib/util.py'', backup_path = ''lib/util.py'',
                  size_bytes = 5\<rparr>]\<rparr>,
      \<lparr>timestamp = ''20250101_120000'', snapshot_path = example_snapshot, files = []\<rparr>]"

definition example_codec :: json_codec where
  "example_codec =
     \<lparr>json_dumps = json_of_manifest,
      json_loads = (\<lambda>txt. find (\<lambda>m. json_of_manifest m = txt) example_manifests)\<rparr>"

definition project_tree :: filesystem where
  "project_tree =
     [[''w''] \<mapsto> Dir,
      [''w'', ''manifest.json''] \<mapsto> File ''web app manifest'',
      [''w'', ''app.py''] \<mapsto> File ''print(1)'',
      [''w'', ''lib''] \<mapsto> Dir,
      [''w'', ''lib'', ''util.py''] \<mapsto> File ''x = 1'']"

text \<open>
  The round trip of the backup engine on the files \<open>fs_paths\<close>: make the manager, back the
  files up, delete the file \<open>victim\<close>, restore the backup under the id that
  \<open>create_backup\<close> returned, with the filter \<open>only\<close>, and read \<open>victim\<close> again. The
  result is what \<open>restore_backup\<close> reported and what the read gave.
\<close>

definition backup_round_trip ::
  "filesystem \<Rightarrow> string list \<Rightarrow> string \<Rightarrow> string list option
    \<Rightarrow> py_error + restore_results \<times> (py_error + string)" where
  "backup_round_trip fs fs_paths victim only =
     (case backup_manager_init fs [''w''] None of
        Inl e \<Rightarrow> Inl e
      | Inr (bm, fs1) \<Rightarrow>
         (case create_backup example_codec bm ''20250101_120000'' fs1 fs_paths of
            Inl e \<Rightarrow> Inl e
          | Inr (backup_id, fs2) \<Rightarrow>
             (case unlink fs2 (join (working_dir bm) victim) of
                Inl e \<Rightarrow> Inl e
              | Inr fs3 \<Rightarrow>
                 (case restore_backup example_codec bm fs3 backup_id only of
                    Inl e \<Rightarrow> Inl e
                  | Inr (results, fs4) \<Rightarrow>
                      Inr (results, read_text fs4 (join (working_dir bm) victim))))))"



section \<open>Properties of the diff statistics\<close>

text \<open>
  Claim C8. For every pair of old and new contents the statistics are the line-count
  deltas cut off at zero: \<open>lines_added = max 0 (new - old)\<close> and
  \<open>lines_removed = max 0 (old - new)\<close>; so when old and new content have the same
  number of lines, whatever the lines are, both are zero.
\<close>

theorem calculate_stats_line_delta:
  "lines_added (calculate_stats old new) = max 0 (line_count new - line_count old)
   \<and> lines_removed (calculate_stats old new) = max 0 (line_count old - line_count new)
   \<and> (line_count old = line_count new \<longrightarrow>
        lines_added (calculate_stats old new) = 0
        \<and> lines_removed (calculate_stats old new) = 0)"
  by (simp add: calculate_stats_def line_count_def Let_def)

theorem calculate_stats_line_delta_witness:
  "Some ''a\<newline>b'' \<noteq> Some ''c\<newline>d''
   \<and> line_count (Some ''a\<newline>b'') = 2 \<and> line_count (Some ''c\<newline>d'') = 2
   \<and> lines_added (calculate_stats (Some ''a\<newline>b'') (Some ''c\<newline>d'')) = 0
   \<and> lines_removed (calculate_stats (Some ''a\<newline>b'') (Some ''c\<newline>d'')) = 0"
proof -
  have n1: "line_count (Some ''a\<newline>b'') = 2"
    by (simp add: line_count_def content_lines_def splitlines_def LF_def CR_def is_linebreak_def)
  have n2: "line_count (Some ''c\<newline>d'') = 2"
    by (simp add: line_count_def content_lines_def splitlines_def LF_def CR_def is_linebreak_def)
  from calculate_stats_line_delta [of "Some ''a\<newline>b''" "Some ''c\<newline>d''"] n1 n2
  show ?thesis by simp
qed

section \<open>Properties of the dispatch and evaluation engines\<close>





























section \<open>Properties of the file system and of applying changes\<close>

lemma mkdir_chain_effect:
  "mkdir_chain fs pre cs = Inr fs' \<Longrightarrow>
   fs' q = (if (\<exists>k. 0 < k \<and> k \<le> length cs \<and> q = pre @ take k cs) \<and> fs q = None
            then Some Dir else fs q)"
proof (induction cs arbitrary: fs pre)
  case Nil
  then show ?case by simp
next
  case (Cons c cs)
  have shift: "(\<exists>k. 0 < k \<and> k \<le> length (c # cs) \<and> q = pre @ take k (c # cs))
      \<longleftrightarrow> q = pre @ [c] \<or> (\<exists>k. 0 < k \<and> k \<le> length cs \<and> q = (pre @ [c]) @ take k cs)"
    (is "?L \<longleftrightarrow> ?R")
  proof
    assume ?L
    then obtain k where k: "0 < k" "k \<le> length (c # cs)" "q = pre @ take k (c # cs)" by blast
    then obtain j where j: "k = Suc j" by (cases k) auto
    show ?R
    proof (cases j)
      case 0
      with k j show ?thesis by simp
    next
      case (Suc i)
      with k j have "0 < j \<and> j \<le> length cs \<and> q = (pre @ [c]) @ take j cs" by simp
      then show ?thesis by blast
    qed
  next
    assume ?R
    then show ?L
    proof
      assume "q = pre @ [c]"
      then have "0 < Suc 0 \<and> Suc 0 \<le> length (c # cs) \<and> q = pre @ take (Suc 0) (c # cs)" by simp
      then show ?L by blast
    next
      assume "\<exists>k. 0 < k \<and> k \<le> length cs \<and> q = (pre @ [c]) @ take k cs"
      then obtain k where "0 < k" "k \<le> length cs" "q = (pre @ [c]) @ take k cs" by blast
      then have "0 < Suc k \<and> Suc k \<le> length (c # cs) \<and> q = pre @ take (Suc k) (c # cs)" by simp
      then show ?L by blast
    qed
  qed
  show ?case
  proof (cases "fs (pre @ [c])")
    case None
    with Cons.prems have "mkdir_chain (fs(pre @ [c] \<mapsto> Dir)) (pre @ [c]) cs = Inr fs'" by simp
    from Cons.IH [OF this] None show ?thesis
      unfolding shift by (auto split: if_splits)
  next
    case (Some n)
    show ?thesis
    proof (cases n)
      case Dir
      with Some Cons.prems have "mkdir_chain fs (pre @ [c]) cs = Inr fs'" by simp
      from Cons.IH [OF this] Some show ?thesis
        unfolding shift by (auto split: if_splits)
    next
      case (File s)
      with Some Cons.prems show ?thesis by simp
    qed
  qed
qed

lemma nonempty_prefix_take:
  "(\<exists>k. 0 < k \<and> k \<le> length p \<and> q = take k p) \<longleftrightarrow> q \<noteq> [] \<and> prefix q p"
proof
  assume "\<exists>k. 0 < k \<and> k \<le> length p \<and> q = take k p"
  then obtain k where "0 < k" "k \<le> length p" "q = take k p" by blast
  then show "q \<noteq> [] \<and> prefix q p" by (auto simp: take_is_prefix)
next
  assume a: "q \<noteq> [] \<and> prefix q p"
  then have "q = take (length q) p" by (auto simp: prefix_def)
  moreover from a have "0 < length q" "length q \<le> length p" by (auto simp: prefix_length_le)
  ultimately show "\<exists>k. 0 < k \<and> k \<le> length p \<and> q = take k p" by blast
qed

lemma mkdir_parents_effect:
  assumes "mkdir_parents fs p = Inr fs'"
  shows "fs' q = (if q \<noteq> [] \<and> prefix q p \<and> fs q = None then Some Dir else fs q)"
  using mkdir_chain_effect [of fs "[]" p fs' q] assms nonempty_prefix_take [of p q]
  by (simp add: mkdir_parents_def)



lemma mkdir_chain_is_dir:
  "mkdir_chain fs pre cs = Inr fs' \<Longrightarrow> cs \<noteq> [] \<Longrightarrow> fs' (pre @ cs) = Some Dir"
proof (induction cs arbitrary: fs pre)
  case Nil
  then show ?case by simp
next
  case (Cons c cs)
  show ?case
  proof (cases "cs = []")
    case True
    with Cons.prems show ?thesis
      by (auto split: option.splits node.splits)
  next
    case False
    show ?thesis
    proof (cases "fs (pre @ [c])")
      case None
      with Cons.prems have "mkdir_chain (fs(pre @ [c] \<mapsto> Dir)) (pre @ [c]) cs = Inr fs'" by simp
      from Cons.IH [OF this False] show ?thesis by simp
    next
      case (Some n)
      with Cons.prems have "mkdir_chain fs (pre @ [c]) cs = Inr fs'"
        by (cases n) auto
      from Cons.IH [OF this False] show ?thesis by simp
    qed
  qed
qed

lemma mkdir_parents_is_dir:
  assumes "mkdir_parents fs p = Inr fs'"
  shows "is_dir fs' p"
proof (cases "p = []")
  case True
  then show ?thesis by (simp add: is_dir_def node_at_def)
next
  case False
  with mkdir_chain_is_dir [of fs "[]" p fs'] assms show ?thesis
    by (simp add: mkdir_parents_def is_dir_def node_at_def)
qed

lemma is_dir_mkdir_parents:
  "mkdir_parents fs p = Inr fs' \<Longrightarrow> is_dir fs q \<Longrightarrow> is_dir fs' q"
  using mkdir_parents_effect [of fs p fs' q]
  by (auto simp: is_dir_def node_at_def split: if_splits)

lemma is_dir_unlink:
  "unlink fs p = Inr fs' \<Longrightarrow> is_dir fs q \<Longrightarrow> is_dir fs' q"
  by (auto simp: unlink_def is_dir_def node_at_def split: option.splits node.splits if_splits)

lemma is_dir_write_text:
  "write_text fs p s = Inr fs' \<Longrightarrow> is_dir fs q \<Longrightarrow> is_dir fs' q"
  by (auto simp: write_text_def is_dir_def node_at_def split: option.splits node.splits if_splits)

lemma apply_diff_keeps_dirs:
  assumes "apply_diff wd dry d (r, fs) = (r', fs')" and "is_dir fs q"
  shows "is_dir fs' q"
  using assms
  by (auto simp: apply_diff_def Let_def split: if_splits sum.splits
      dest: is_dir_mkdir_parents is_dir_unlink is_dir_write_text)

lemma apply_diff_reports:
  assumes "apply_diff wd False d (r, fs) = (r', fs')"
  shows "(r' = r\<lparr>success := success r @ [file_path d]\<rparr>
            \<and> is_dir fs' (parent (join wd (file_path d))))
       \<or> (r' = r\<lparr>skipped := skipped r @ [file_path d]\<rparr>
            \<and> is_dir fs' (parent (join wd (file_path d))))
       \<or> (\<exists>e. r' = r\<lparr>failed := failed r @ [(file_path d, e)]\<rparr>)"
  using assms
  by (auto simp: apply_diff_def Let_def split: if_splits sum.splits
      dest!: mkdir_parents_is_dir dest: is_dir_unlink is_dir_write_text)

lemma apply_loop_parent_dirs:
  assumes "apply_loop wd False ds (r, fs) = (r', fs')"
    and "\<forall>p \<in> set (success r) \<union> set (skipped r). is_dir fs (parent (join wd p))"
  shows "\<forall>p \<in> set (success r') \<union> set (skipped r'). is_dir fs' (parent (join wd p))"
  using assms
proof (induction ds arbitrary: r fs)
  case Nil
  then show ?case by simp
next
  case (Cons d ds)
  obtain r1 fs1 where step: "apply_diff wd False d (r, fs) = (r1, fs1)"
    by (cases "apply_diff wd False d (r, fs)")
  with Cons.prems(1) have rest: "apply_loop wd False ds (r1, fs1) = (r', fs')" by simp
  have keep: "is_dir fs1 q" if "is_dir fs q" for q
    using step that by (rule apply_diff_keeps_dirs)
  have "\<forall>p \<in> set (success r1) \<union> set (skipped r1). is_dir fs1 (parent (join wd p))"
    using apply_diff_reports [OF step] Cons.prems(2) keep by auto
  with rest show ?case by (rule Cons.IH)
qed



lemma not_prefix_parent:
  assumes "p \<noteq> []"
  shows "\<not> prefix p (parent p)"
proof
  assume "prefix p (parent p)"
  then have "length p \<le> length (butlast p)"
    unfolding parent_def by (rule prefix_length_le)
  moreover from assms have "length (butlast p) < length p"
    by (simp add: length_greater_0_conv)
  ultimately show False by linarith
qed


lemma apply_changes_single:
  "apply_changes wd fs [d] dry = apply_diff wd dry d (\<lparr>success = [], failed = [], skipped = []\<rparr>, fs)"
  by (simp add: apply_changes_def)

text \<open>
  Claim C10. Outside dry-run mode \<open>apply_changes\<close> makes the parent directory of a diff's
  target before it looks at the operation: after the call the parent directory of every
  path reported in \<open>success\<close> or \<open>skipped\<close> exists; a diff whose parent directory
  cannot be made is reported in \<open>failed\<close> whatever its operation; and a Delete whose
  target is absent is reported in \<open>skipped\<close> while the file system it leaves is the one
  in which the parent directories have been made.
\<close>

theorem apply_changes_creates_parent_dirs:
  "(apply_changes wd fs ds False = (res, fs') \<longrightarrow>
      (\<forall>p \<in> set (success res) \<union> set (skipped res). is_dir fs' (parent (join wd p))))
   \<and> (mkdir_parents fs (parent (join wd (file_path b))) = Inl e \<longrightarrow>
        apply_changes wd fs [b] False
          = (\<lparr>success = [], failed = [(file_path b, e)], skipped = []\<rparr>, fs))
   \<and> (operation d = Delete \<longrightarrow> \<not> path_exists fs (join wd (file_path d)) \<longrightarrow>
        mkdir_parents fs (parent (join wd (file_path d))) = Inr made \<longrightarrow>
        apply_changes wd fs [d] False
          = (\<lparr>success = [], failed = [], skipped = [file_path d]\<rparr>, made)
        \<and> is_dir made (parent (join wd (file_path d))))"
proof (intro conjI impI)
  assume "apply_changes wd fs ds False = (res, fs')"
  then have "apply_loop wd False ds (\<lparr>success = [], failed = [], skipped = []\<rparr>, fs) = (res, fs')"
    by (simp add: apply_changes_def)
  then show "\<forall>p \<in> set (success res) \<union> set (skipped res). is_dir fs' (parent (join wd p))"
    by (rule apply_loop_parent_dirs) simp
next
  assume "mkdir_parents fs (parent (join wd (file_path b))) = Inl e"
  then show "apply_changes wd fs [b] False
          = (\<lparr>success = [], failed = [(file_path b, e)], skipped = []\<rparr>, fs)"
    by (simp add: apply_changes_single apply_diff_def Let_def)
next
  assume del: "operation d = Delete"
    and absent: "\<not> path_exists fs (join wd (file_path d))"
    and mk: "mkdir_parents fs (parent (join wd (file_path d))) = Inr made"
  let ?t = "join wd (file_path d)"
  from absent have ne: "?t \<noteq> []" and none: "fs ?t = None"
    by (auto simp: path_exists_def node_at_def split: if_splits)
  have "\<not> prefix ?t (parent ?t)"
    using ne by (rule not_prefix_parent)
  with mkdir_parents_effect [OF mk, of ?t] none have "made ?t = None" by simp
  with ne have "\<not> path_exists made ?t" by (simp add: path_exists_def node_at_def)
  with del mk show "apply_changes wd fs [d] False
          = (\<lparr>success = [], failed = [], skipped = [file_path d]\<rparr>, made)"
    by (simp add: apply_changes_single apply_diff_def Let_def)
  from mk show "is_dir made (parent ?t)" by (rule mkdir_parents_is_dir)
qed


lemmas path_eval = join_def is_absolute_def path_parts_def parent_def

theorem apply_changes_creates_parent_dirs_witness:
  "operation (example_diff Delete ''pkg/sub/old.py'' None) = Delete
   \<and> \<not> path_exists example_tree (join [''w''] ''pkg/sub/old.py'')
   \<and> \<not> is_dir example_tree [''w'', ''pkg'', ''sub'']
   \<and> (\<exists>fs1. apply_changes [''w''] example_tree [example_diff Delete ''pkg/sub/old.py'' None] False
           = (\<lparr>success = [], failed = [], skipped = [''pkg/sub/old.py'']\<rparr>, fs1)
         \<and> is_dir fs1 [''w'', ''pkg'', ''sub''])
   \<and> apply_changes [''w''] example_tree [example_diff Delete ''blocker/x/y.py'' None] False
       = (\<lparr>success = [], failed = [(''blocker/x/y.py'', NotADirectoryError)], skipped = []\<rparr>,
          example_tree)"
proof -
  let ?d = "example_diff Delete ''pkg/sub/old.py'' None"
  let ?b = "example_diff Delete ''blocker/x/y.py'' None"
  let ?fs1 = "example_tree([''w'', ''pkg''] \<mapsto> Dir, [''w'', ''pkg'', ''sub''] \<mapsto> Dir)"
  have fp: "file_path ?d = ''pkg/sub/old.py''" "file_path ?b = ''blocker/x/y.py''"
    by (simp_all add: example_diff_def)
  have j: "join [''w''] ''pkg/sub/old.py'' = [''w'', ''pkg'', ''sub'', ''old.py'']"
    by (simp add: path_eval)
  have jb: "join [''w''] ''blocker/x/y.py'' = [''w'', ''blocker'', ''x'', ''y.py'']"
    by (simp add: path_eval)
  have h1: "operation ?d = Delete" by (simp add: example_diff_def)
  have h2: "\<not> path_exists example_tree (join [''w''] (file_path ?d))"
    by (simp add: fp j path_exists_def node_at_def example_tree_def)
  have h2': "\<not> is_dir example_tree [''w'', ''pkg'', ''sub'']"
    by (simp add: is_dir_def node_at_def example_tree_def)
  have mk: "mkdir_parents example_tree (parent (join [''w''] (file_path ?d))) = Inr ?fs1"
    by (simp add: fp j parent_def mkdir_parents_def example_tree_def)
  have mkb: "mkdir_parents example_tree (parent (join [''w''] (file_path ?b))) = Inl NotADirectoryError"
    by (simp add: fp jb parent_def mkdir_parents_def example_tree_def)
  note t = apply_changes_creates_parent_dirs [where wd = "[''w'']" and fs = example_tree
      and d = ?d and ds = "[?d]" and b = ?b and e = NotADirectoryError and made = ?fs1
      and res = "\<lparr>success = [], failed = [], skipped = [''pkg/sub/old.py'']\<rparr>" and fs' = ?fs1]
  from t h1 h2 mk have r: "apply_changes [''w''] example_tree [?d] False
          = (\<lparr>success = [], failed = [], skipped = [file_path ?d]\<rparr>, ?fs1)"
    by blast
  with t have "\<forall>p \<in> set (success \<lparr>success = [], failed = [], skipped = [''pkg/sub/old.py'']\<rparr>)
       \<union> set (skipped \<lparr>success = [], failed = [], skipped = [''pkg/sub/old.py'']\<rparr>).
        is_dir ?fs1 (parent (join [''w''] p))"
    by (simp only: fp) blast
  then have d: "is_dir ?fs1 [''w'', ''pkg'', ''sub'']"
    by (simp add: j parent_def)
  from t mkb have rb: "apply_changes [''w''] example_tree [?b] False
          = (\<lparr>success = [], failed = [(file_path ?b, NotADirectoryError)], skipped = []\<rparr>, example_tree)"
    by blast
  from h1 h2 h2' r d rb show ?thesis by (simp only: fp) blast
qed



section \<open>Properties of the backup and rollback engine\<close>








text \<open>
  Claim C4 fails for a file named \<open>manifest.json\<close> at the top of the working directory:
  \<open>create_backup\<close> copies it to \<open>manifest.json\<close> in the snapshot directory and then
  writes its own manifest over the copy. After the file is deleted, \<open>restore_backup\<close>
  reports it as restored, but the file then holds the JSON text of the backup's manifest and
  not the bytes it had when the backup was made.
\<close>

theorem backup_of_manifest_json_lost:
  "read_text project_tree [''w'', ''manifest.json''] = Inr ''web app manifest''
   \<and> backup_round_trip project_tree [''manifest.json''] ''manifest.json'' None
       = Inr (\<lparr>restored = [''manifest.json''], restore_failed = []\<rparr>,
              Inr (json_of_manifest (example_manifests ! 0)))
   \<and> json_of_manifest (example_manifests ! 0) \<noteq> ''web app manifest''"
  by code_simp

text \<open>
  For comparison: an ordinary file comes back with its content, and a file named by an
  absolute path is not backed up at all (the copy onto itself raises SameFileError, which
  \<open>create_backup\<close> passes over), so nothing restores it.
\<close>

lemma backup_round_trip_ordinary_file:
  "read_text project_tree [''w'', ''app.py''] = Inr ''print(1)''
   \<and> backup_round_trip project_tree [''app.py'', ''lib/util.py''] ''app.py'' None
       = Inr (\<lparr>restored = [''app.py'', ''lib/util.py''], restore_failed = []\<rparr>, Inr ''print(1)'')"
  by code_simp

lemma backup_round_trip_absolute_path:
  "backup_round_trip project_tree [''/w/app.py''] ''app.py'' None
       = Inr (\<lparr>restored = [], restore_failed = []\<rparr>, Inl FileNotFoundError)"
  by code_simp

section \<open>Properties of the extraction engine\<close>

text \<open>
  Claim C3. For the text \<open>File: foo.py\<close>, a line feed, and a fenced \<open>python\<close> block
  holding \<open>def f(): pass\<close>, \<open>parse_response\<close> returns exactly one operation: Create,
  path \<open>foo.py\<close>, language \<open>python\<close>, content \<open>def f(): pass\<close>.
\<close>

theorem parse_response_scenario_a:
  "parse_response ''File: foo.py\<newline>```python\<newline>def f(): pass\<newline>```''
     = Inr [\<lparr> op_type = Create, op_file_path = ''foo.py'',
              op_content = Some ''def f(): pass'', line_start = None, line_end = None,
              language = Some ''python'' \<rparr>]"
  by code_simp






end
